theory Spec2Isabelle
  imports Complex_Main
begin

section \<open>JavaScript values\<close>

text \<open>
  The program is \<^verbatim>\<open>src/static/js/app.js\<close>. A JavaScript string is the list of its UTF-16
  code units, so \<^verbatim>\<open>length\<close>, \<^verbatim>\<open>substring\<close> and \<^verbatim>\<open>trim\<close> count what the source
  counts. Node ids are integers, coordinates and scale factors are real numbers. Node
  objects live in a store; a reference is an index into it, so that a node reached through
  \<^verbatim>\<open>state.nodes\<close>, through a link's endpoint and through \<^verbatim>\<open>state.selectedNode\<close> is
  one object.
\<close>

type_synonym jsstring = "nat list"

type_synonym ref = nat

datatype js_error = TypeError | ReferenceError

text \<open>
  Decimal rendering of an integer inside a template literal (for magnitudes below
  \<open>10 ^ 21\<close>, where JavaScript prints every digit).
\<close>

fun digits :: "nat \<Rightarrow> jsstring" where
  "digits n = (if n < 10 then [48 + n] else digits (n div 10) @ [48 + n mod 10])"

declare digits.simps [simp del]

definition show_int :: "int \<Rightarrow> jsstring" where
  "show_int i = (if i < 0 then 45 # digits (nat (- i)) else digits (nat i))"

text \<open>
  Ids are JavaScript numbers with integer values, and the source adds 1 to them
  (\<^verbatim>\<open>state.nextId++\<close>, \<^verbatim>\<open>Math.max(...) + 1\<close>) in double precision: the exact sum is rounded
  to the nearest double, ties to the even significand. \<open>round_double\<close> is that rounding
  on the integers (within the finite range of doubles); integers of magnitude up to
  \<open>2 ^ 53\<close> are doubles.
\<close>

fun bit_length :: "nat \<Rightarrow> nat" where
  "bit_length n = (if n = 0 then 0 else Suc (bit_length (n div 2)))"

declare bit_length.simps [simp del]

definition round_double :: "int \<Rightarrow> int" where
  "round_double n =
     (let a = nat \<bar>n\<bar> in
      if a \<le> 2 ^ 53 then n
      else
        (let u = 2 ^ (bit_length a - 53);
             q = a div u;
             r = a mod u;
             q' = (if 2 * r < u then q else if u < 2 * r then q + 1
                   else if even q then q else q + 1)
         in sgn n * int (q' * u)))"

definition js_add :: "int \<Rightarrow> int \<Rightarrow> int" where
  "js_add a b = round_double (a + b)"

section \<open>Configuration (CONFIG, lines 10-30)\<close>

definition chargeStrength :: real where
  "chargeStrength = - 500"

definition linkDistance :: real where
  "linkDistance = 150"

definition zoomMin :: real where
  "zoomMin = 1 / 10"

definition zoomMax :: real where
  "zoomMax = 5"

section \<open>Data model\<close>

datatype node_type = Root | Child | Breaker

record node =
  node_id :: int
  node_x :: real
  node_y :: real
  node_fx :: "real option"
  node_fy :: "real option"
  node_type :: node_type
  node_note :: jsstring
  createdAt :: jsstring
  parentId :: "int option"
  children :: "int list"

text \<open>
  A link endpoint is a node object, or (the other branch of the \<^verbatim>\<open>typeof\<close> tests in
  \<^verbatim>\<open>createBreakerOnLine\<close> and \<^verbatim>\<open>deleteSelectedNode\<close>) a bare id.
\<close>

datatype endpoint = Obj ref | Ident int

record link =
  source :: endpoint
  target :: endpoint
  link_id :: jsstring
  isBreakerLink :: bool

text \<open>The d3 zoom transform: scale \<open>k\<close> and translation \<open>(x, y)\<close>.\<close>

record transform =
  t_k :: real
  t_x :: real
  t_y :: real

text \<open>The persistence wire format built by \<^verbatim>\<open>saveGraph\<close> and read by \<^verbatim>\<open>loadGraph\<close>.\<close>

record wire_node =
  w_id :: int
  w_type :: node_type
  w_note :: jsstring
  w_x :: "real option"
  w_y :: "real option"
  w_createdAt :: jsstring
  w_parentId :: "int option"
  w_children :: "int list option"

record wire_link =
  w_source :: "int option"
  w_target :: "int option"
  w_isBreakerLink :: bool

record payload =
  p_nodes :: "wire_node list option"
  p_links :: "wire_link list option"

text \<open>
  The application state (lines 33-57), with the parts of its collaborators that the
  source reads or writes: \<open>charge\<close> is the strength of the simulation's charge force,
  \<open>editorValue\<close> the text held by the editor widget, \<open>timeout\<close> the pending timer of the
  debounced change handler (the time at which it fires), \<open>clock\<close> the current time in
  milliseconds, and \<open>posted\<close> the bodies of the POST requests sent so far.
\<close>

record state =
  store :: "node list"
  nodes :: "ref list"
  links :: "link list"
  nextId :: int
  selectedNode :: "ref option"
  connectionSourceNode :: "ref option"
  isDragging :: bool
  isPanning :: bool
  width :: real
  height :: real
  zoomTransform :: "transform option"
  charge :: real
  editorValue :: jsstring
  clock :: nat
  timeout :: "nat option"
  posted :: "payload list"

definition init_state :: "real \<Rightarrow> real \<Rightarrow> state" where
  "init_state w h =
     \<lparr>store = [], nodes = [], links = [], nextId = 1, selectedNode = None,
      connectionSourceNode = None, isDragging = False, isPanning = False,
      width = w, height = h, zoomTransform = None, charge = chargeStrength,
      editorValue = [], clock = 0, timeout = None, posted = []\<rparr>"

section \<open>Graph operations (lines 548-628)\<close>

text \<open>The note template of a root node (Cyrillic text, 34 code units).\<close>

definition rootNote :: jsstring where
  "rootNote = [35, 32, 1053, 1086, 1074, 1072, 1103, 32, 1079, 1072, 1084, 1077, 1090, 1082,
     1072, 10, 10, 1053, 1072, 1095, 1085, 1080, 1090, 1077, 32, 1087, 1080, 1089, 1072, 1090,
     1100, 46, 46, 46]"

text \<open>The note written into a breaker node (Cyrillic text, 54 code units).\<close>

definition breakerNote :: jsstring where
  "breakerNote = [35, 32, 1056, 1072, 1079, 1088, 1099, 1074, 1072, 1102, 1097, 1072, 1103, 32,
     1089, 1074, 1103, 1079, 1100, 10, 10, 1057, 1074, 1103, 1079, 1100, 32, 1073, 1099, 1083,
     1072, 32, 1087, 1088, 1077, 1088, 1074, 1072, 1085, 1072, 32, 1074, 32, 1101, 1090, 1086,
     1081, 32, 1090, 1086, 1095, 1082, 1077, 46]"

text \<open>
  \<^verbatim>\<open>createNode(x, y, type, parentId = null)\<close>. The argument \<open>now\<close> is the value of
  \<^verbatim>\<open>new Date().toISOString()\<close>. The new object is allocated at the end of the store.
  \<^verbatim>\<open>restart()\<close> redraws and reheats the simulation; it changes nothing modelled here.
\<close>

definition createNode ::
  "real \<Rightarrow> real \<Rightarrow> node_type \<Rightarrow> int option \<Rightarrow> jsstring \<Rightarrow> state \<Rightarrow> ref \<times> state" where
  "createNode x y ty pid now st =
     (let nd = \<lparr>node_id = nextId st, node_x = x, node_y = y, node_fx = None, node_fy = None,
                node_type = ty, node_note = (if ty = Root then rootNote else []),
                createdAt = now, parentId = pid, children = []\<rparr>;
          r = length (store st)
      in (r, st\<lparr>store := store st @ [nd], nodes := nodes st @ [r],
               nextId := js_add (nextId st) 1\<rparr>))"

text \<open>\<^verbatim>\<open>createLink(source, target, isBreakerLink = false)\<close>; both arguments are node objects.\<close>

definition createLink :: "ref \<Rightarrow> ref \<Rightarrow> bool \<Rightarrow> state \<Rightarrow> state" where
  "createLink s t brk st =
     (let l = \<lparr>source = Obj s, target = Obj t,
               link_id = show_int (node_id (store st ! s)) @ [45] @ show_int (node_id (store st ! t)),
               isBreakerLink = brk\<rparr>;
          ls = links st @ [l]
      in st\<lparr>links := ls, charge := chargeStrength * min (real (length ls) / 5) 2\<rparr>)"

text \<open>
  \<^verbatim>\<open>updateParentChildRelationships(parentNode, childNode, isAdding = true)\<close>. No function
  of the source calls it.
\<close>

definition updateParentChildRelationships :: "ref option \<Rightarrow> ref option \<Rightarrow> bool \<Rightarrow> state \<Rightarrow> state" where
  "updateParentChildRelationships parentNode childNode isAdding st =
     (case (parentNode, childNode) of
        (Some p, Some c) \<Rightarrow>
          (let pn = store st ! p; cn = store st ! c in
           if isAdding then
             (let s1 = (store st)[p := pn\<lparr>children := children pn @ [node_id cn]\<rparr>] in
              st\<lparr>store := s1[c := (s1 ! c)\<lparr>parentId := Some (node_id (s1 ! p))\<rparr>]\<rparr>)
           else
             (let s1 = (store st)[p := pn\<lparr>children := filter (\<lambda>i. i \<noteq> node_id cn) (children pn)\<rparr>] in
              st\<lparr>store := s1[c := (s1 ! c)\<lparr>parentId := None\<rparr>]\<rparr>))
      | _ \<Rightarrow> st)"

text \<open>\<^verbatim>\<open>clearConnectionSelection()\<close> (lines 405-415).\<close>

definition clearConnectionSelection :: "state \<Rightarrow> state" where
  "clearConnectionSelection st =
     (case connectionSourceNode st of None \<Rightarrow> st | Some _ \<Rightarrow> st\<lparr>connectionSourceNode := None\<rparr>)"

text \<open>
  \<^verbatim>\<open>handleNodeRightClick(event, d)\<close> (lines 417-442). \<open>rnd\<close> is the value of
  \<^verbatim>\<open>Math.random()\<close>.
\<close>

definition handleNodeRightClick :: "ref \<Rightarrow> real \<Rightarrow> jsstring \<Rightarrow> state \<Rightarrow> state" where
  "handleNodeRightClick d rnd now st =
     (if isDragging st then st
      else
        (let st1 = clearConnectionSelection st;
             angle = rnd * 2 * pi;
             distance = linkDistance;
             dn = store st1 ! d;
             (newNode, st2) = createNode (node_x dn + cos angle * distance)
                                (node_y dn + sin angle * distance) Child (Some (node_id dn)) now st1
         in createLink d newNode False st2))"

text \<open>
  The parent/child invariant of the data model, over the nodes of \<^verbatim>\<open>state.nodes\<close>: every
  id in a node's \<open>children\<close> belongs to nodes whose \<open>parentId\<close> is that node, and every node
  whose \<open>parentId\<close> is a node's id is listed in that node's \<open>children\<close>.
\<close>

definition live :: "state \<Rightarrow> node list" where
  "live st = map (\<lambda>r. store st ! r) (nodes st)"

definition parent_child_consistent :: "state \<Rightarrow> bool" where
  "parent_child_consistent st =
     list_all (\<lambda>n. list_all (\<lambda>m.
        (node_id m \<in> set (children n) \<longrightarrow> parentId m = Some (node_id n)) \<and>
        (parentId m = Some (node_id n) \<longrightarrow> node_id m \<in> set (children n))) (live st)) (live st)"

section \<open>Persistence and the editor (lines 776-793, 960-986)\<close>

text \<open>\<^verbatim>\<open>l.source.id\<close> in \<^verbatim>\<open>saveGraph\<close>: a bare id has no property \<^verbatim>\<open>id\<close>.\<close>

definition endpoint_wire_id :: "state \<Rightarrow> endpoint \<Rightarrow> int option" where
  "endpoint_wire_id st e = (case e of Obj r \<Rightarrow> Some (node_id (store st ! r)) | Ident _ \<Rightarrow> None)"

definition graph_payload :: "state \<Rightarrow> payload" where
  "graph_payload st =
     \<lparr>p_nodes = Some (map (\<lambda>r. let n = store st ! r in
          \<lparr>w_id = node_id n, w_type = node_type n, w_note = node_note n,
           w_x = Some (node_x n), w_y = Some (node_y n), w_createdAt = createdAt n,
           w_parentId = parentId n, w_children = Some (children n)\<rparr>) (nodes st)),
      p_links = Some (map (\<lambda>l.
          \<lparr>w_source = endpoint_wire_id st (source l), w_target = endpoint_wire_id st (target l),
           w_isBreakerLink = isBreakerLink l\<rparr>) (links st))\<rparr>"

text \<open>
  \<^verbatim>\<open>saveGraph()\<close> builds the body from the graph as it is at the call and posts it; a failed
  request is only logged.
\<close>

definition saveGraph :: "state \<Rightarrow> state" where
  "saveGraph st = st\<lparr>posted := posted st @ [graph_payload st]\<rparr>"

definition closeEditor :: "state \<Rightarrow> state" where
  "closeEditor st =
     saveGraph (case selectedNode st of None \<Rightarrow> st | Some _ \<Rightarrow> st\<lparr>selectedNode := None\<rparr>)"

section \<open>Link splitting (lines 585-611)\<close>

definition find_node :: "state \<Rightarrow> int \<Rightarrow> ref option" where
  "find_node st i = find (\<lambda>r. node_id (store st ! r) = i) (nodes st)"

definition resolve_endpoint :: "state \<Rightarrow> endpoint \<Rightarrow> ref option" where
  "resolve_endpoint st e = (case e of Obj r \<Rightarrow> Some r | Ident i \<Rightarrow> find_node st i)"

definition createBreakerOnLine :: "link \<Rightarrow> jsstring \<Rightarrow> state \<Rightarrow> ref option \<times> state" where
  "createBreakerOnLine linkData now st =
     (case (resolve_endpoint st (source linkData), resolve_endpoint st (target linkData)) of
        (Some sourceNode, Some targetNode) \<Rightarrow>
          (let midX = (node_x (store st ! sourceNode) + node_x (store st ! targetNode)) / 2;
               midY = (node_y (store st ! sourceNode) + node_y (store st ! targetNode)) / 2;
               st1 = st\<lparr>links := filter (\<lambda>l. link_id l \<noteq> link_id linkData) (links st)\<rparr>;
               (breakerNode, st2) = createNode midX midY Breaker None now st1;
               st3 = st2\<lparr>store := (store st2)[breakerNode :=
                        (store st2 ! breakerNode)\<lparr>node_note := breakerNote\<rparr>]\<rparr>;
               st4 = createLink sourceNode breakerNode True st3;
               st5 = createLink breakerNode targetNode True st4
           in (Some breakerNode, st5))
      | _ \<Rightarrow> (None, st))"

section \<open>Node deletion (lines 655-694)\<close>

text \<open>
  The receiver of a call: \<^verbatim>\<open>deleteSelectedNode()\<close> in \<^verbatim>\<open>handleKeydown\<close> leaves \<^verbatim>\<open>this\<close>
  undefined (the file is in strict mode); as the click listener of the delete button the
  function receives the button element, which has no property \<^verbatim>\<open>parentId\<close>.
\<close>

datatype this_binding = ThisUndefined | ThisElement

text \<open>\<^verbatim>\<open>typeof e === 'object' ? e.id : e\<close>.\<close>

definition endpoint_id :: "state \<Rightarrow> endpoint \<Rightarrow> int" where
  "endpoint_id st e = (case e of Obj r \<Rightarrow> node_id (store st ! r) | Ident i \<Rightarrow> i)"

text \<open>
  \<^verbatim>\<open>state.nodes.find(n => n.id === node.parentId)\<close> (line 662): no scope binds the
  identifier \<^verbatim>\<open>node\<close>, so the first call of the arrow function raises a ReferenceError;
  on an empty array the arrow function is not called and the result is undefined.
\<close>

definition find_parent_of_unbound :: "ref list \<Rightarrow> js_error + ref option" where
  "find_parent_of_unbound ns = (case ns of [] \<Rightarrow> Inr None | _ # _ \<Rightarrow> Inl ReferenceError)"

text \<open>Lines 664-693, for the parent node found at line 662.\<close>

definition delete_rest :: "int \<Rightarrow> ref option \<Rightarrow> state \<Rightarrow> state" where
  "delete_rest nodeId parentNode st =
     (let st1 = st\<lparr>links := filter (\<lambda>l. endpoint_id st (source l) \<noteq> nodeId \<and>
                                         endpoint_id st (target l) \<noteq> nodeId) (links st)\<rparr>;
          st2 = (case parentNode of
                   None \<Rightarrow> st1
                 | Some p \<Rightarrow> st1\<lparr>store := (store st1)[p := (store st1 ! p)
                       \<lparr>children := filter (\<lambda>i. i \<noteq> nodeId) (children (store st1 ! p))\<rparr>]\<rparr>);
          st3 = st2\<lparr>store := foldl (\<lambda>s r. if parentId (s ! r) = Some nodeId
                                          then s[r := (s ! r)\<lparr>parentId := None\<rparr>] else s)
                              (store st2) (nodes st2)\<rparr>;
          st4 = st3\<lparr>nodes := filter (\<lambda>r. node_id (store st3 ! r) \<noteq> nodeId) (nodes st3)\<rparr>
      in saveGraph (closeEditor st4))"

text \<open>
  \<^verbatim>\<open>deleteSelectedNode()\<close>. \<open>Inl\<close> is an exception that leaves the function; both are
  raised before anything is written, so the state is then the one on entry.
\<close>

definition deleteSelectedNode :: "this_binding \<Rightarrow> state \<Rightarrow> js_error + state" where
  "deleteSelectedNode this st =
     (case selectedNode st of
        None \<Rightarrow> Inr st
      | Some sel \<Rightarrow>
          (let nodeId = node_id (store st ! sel) in
           case this of
             ThisUndefined \<Rightarrow> Inl TypeError
           | ThisElement \<Rightarrow>
               (case find_parent_of_unbound (nodes st) of
                  Inl e \<Rightarrow> Inl e
                | Inr parentNode \<Rightarrow> Inr (delete_rest nodeId parentNode st))))"

section \<open>Context of a node (lines 697-734)\<close>

definition MAX_CHARS :: nat where
  "MAX_CHARS = 400"

text \<open>The code units that \<^verbatim>\<open>String.prototype.trim\<close> strips: white space and line terminators.\<close>

definition is_white_space :: "nat \<Rightarrow> bool" where
  "is_white_space c = (c \<in> set [9, 10, 11, 12, 13, 32, 160, 5760, 8192, 8193, 8194, 8195, 8196,
     8197, 8198, 8199, 8200, 8201, 8202, 8232, 8233, 8239, 8287, 12288, 65279])"

definition trim :: "jsstring \<Rightarrow> jsstring" where
  "trim s = rev (dropWhile is_white_space (rev (dropWhile is_white_space s)))"

text \<open>\<^verbatim>\<open>s.substring(start)\<close> for \<open>0 \<le> start\<close>.\<close>

definition substring :: "jsstring \<Rightarrow> nat \<Rightarrow> jsstring" where
  "substring s start = drop start s"

text \<open>
  The label of an entry is a template literal with Cyrillic words around the node's id;
  it is kept as the kind of entry and the id.
\<close>

datatype label = FromParent int | FromChild int

record context_part =
  part_label :: label
  part_text :: jsstring

definition displayText :: "jsstring \<Rightarrow> jsstring" where
  "displayText noteText =
     (if length noteText > MAX_CHARS
      then [46, 46, 46] @ substring noteText (length noteText - MAX_CHARS)
      else noteText)"

definition getNodeContext :: "ref \<Rightarrow> state \<Rightarrow> context_part list" where
  "getNodeContext node st =
     (let nd = store st ! node;
          contextParts = [];
          contextParts =
            (case parentId nd of
               None \<Rightarrow> contextParts
             | Some pid \<Rightarrow>
                 if pid = 0 then contextParts
                 else
                   (case find_node st pid of
                      None \<Rightarrow> contextParts
                    | Some p \<Rightarrow>
                        (let parentNode = store st ! p in
                         if node_note parentNode \<noteq> [] \<and> trim (node_note parentNode) \<noteq> []
                         then contextParts @
                           [\<lparr>part_label = FromParent (node_id parentNode),
                             part_text = displayText (trim (node_note parentNode))\<rparr>]
                         else contextParts)))
      in foldl (\<lambda>parts childId.
           case find_node st childId of
             None \<Rightarrow> parts
           | Some c \<Rightarrow>
               (let childNode = store st ! c in
                if node_note childNode \<noteq> [] \<and> trim (node_note childNode) \<noteq> []
                then parts @
                  [\<lparr>part_label = FromChild (node_id childNode),
                    part_text = displayText (trim (node_note childNode))\<rparr>]
                else parts))
         contextParts (children nd))"

section \<open>Loading (lines 988-1015)\<close>

text \<open>
  One loaded node object. \<open>rx\<close> and \<open>ry\<close> are the values of \<^verbatim>\<open>Math.random()\<close> used when the
  coordinate is missing or zero; \<^verbatim>\<open>n.parentId || null\<close> turns the id 0 into null.
\<close>

definition load_node :: "state \<Rightarrow> real \<Rightarrow> real \<Rightarrow> wire_node \<Rightarrow> node" where
  "load_node st rx ry n =
     \<lparr>node_id = w_id n,
      node_x = (case w_x n of
                  Some v \<Rightarrow> if v \<noteq> 0 then v else width st / 2 + (rx - 1 / 2) * 200
                | None \<Rightarrow> width st / 2 + (rx - 1 / 2) * 200),
      node_y = (case w_y n of
                  Some v \<Rightarrow> if v \<noteq> 0 then v else height st / 2 + (ry - 1 / 2) * 200
                | None \<Rightarrow> height st / 2 + (ry - 1 / 2) * 200),
      node_fx = None, node_fy = None, node_type = w_type n, node_note = w_note n,
      createdAt = w_createdAt n,
      parentId = (case w_parentId n of Some p \<Rightarrow> if p \<noteq> 0 then Some p else None | None \<Rightarrow> None),
      children = (case w_children n of Some cs \<Rightarrow> cs | None \<Rightarrow> [])\<rparr>"

text \<open>\<^verbatim>\<open>state.nodes.find(n => n.id === v)\<close> for a wire value that may be missing.\<close>

definition find_wire :: "state \<Rightarrow> int option \<Rightarrow> ref option" where
  "find_wire st v = (case v of None \<Rightarrow> None | Some i \<Rightarrow> find_node st i)"

definition show_wire :: "int option \<Rightarrow> jsstring" where
  "show_wire v = (case v of Some i \<Rightarrow> show_int i
                  | None \<Rightarrow> [117, 110, 100, 101, 102, 105, 110, 101, 100])"

text \<open>The \<^verbatim>\<open>map\<close> and the \<^verbatim>\<open>filter\<close> of lines 1003-1008 for one wire link.\<close>

definition load_link :: "state \<Rightarrow> wire_link \<Rightarrow> link option" where
  "load_link st l =
     (case (find_wire st (w_source l), find_wire st (w_target l)) of
        (Some s, Some t) \<Rightarrow>
          Some \<lparr>source = Obj s, target = Obj t,
                link_id = show_wire (w_source l) @ [45] @ show_wire (w_target l),
                isBreakerLink = w_isBreakerLink l\<rparr>
      | _ \<Rightarrow> None)"

text \<open>
  The handler of the parsed response. The first component is the error caught and logged
  by the promise's \<^verbatim>\<open>catch\<close>: reading \<^verbatim>\<open>data.links.map\<close> when \<^verbatim>\<open>links\<close> is missing
  raises after \<^verbatim>\<open>state.nodes\<close> has been assigned. The next id is a double-precision sum;
  an engine's limit on the number of arguments of \<^verbatim>\<open>Math.max\<close> is outside the model.
\<close>

definition loadGraph ::
  "payload \<Rightarrow> (nat \<Rightarrow> real) \<Rightarrow> (nat \<Rightarrow> real) \<Rightarrow> state \<Rightarrow> js_error option \<times> state" where
  "loadGraph data rx ry st =
     (case p_nodes data of
        None \<Rightarrow> (None, st)
      | Some ns \<Rightarrow>
          if length ns > 0 then
            (let base = length (store st);
                 objs = map (\<lambda>(i, n). load_node st (rx i) (ry i) n) (enumerate 0 ns);
                 st1 = st\<lparr>store := store st @ objs, nodes := [base..<base + length ns]\<rparr>
             in case p_links data of
                  None \<Rightarrow> (Some TypeError, st1)
                | Some ls \<Rightarrow>
                    (let st2 = st1\<lparr>links := List.map_filter (load_link st1) ls\<rparr>;
                         st3 = st2\<lparr>nextId :=
                                 js_add (Max (set (map (\<lambda>r. node_id (store st2 ! r)) (nodes st2)))) 1\<rparr>
                     in (None, st3)))
          else (None, st))"

section \<open>Viewport (lines 198-272, 533-545)\<close>

text \<open>
  \<^verbatim>\<open>d3.zoomIdentity\<close>, \<^verbatim>\<open>transform.translate(x, y)\<close> and \<^verbatim>\<open>transform.scale(k)\<close> of the d3
  library: both compose with the receiver.
\<close>

definition zoomIdentity :: transform where
  "zoomIdentity = \<lparr>t_k = 1, t_x = 0, t_y = 0\<rparr>"

definition translate :: "transform \<Rightarrow> real \<Rightarrow> real \<Rightarrow> transform" where
  "translate t x y = \<lparr>t_k = t_k t, t_x = t_x t + t_k t * x, t_y = t_y t + t_k t * y\<rparr>"

definition scale :: "transform \<Rightarrow> real \<Rightarrow> transform" where
  "scale t k = \<lparr>t_k = t_k t * k, t_x = t_x t, t_y = t_y t\<rparr>"

text \<open>\<^verbatim>\<open>state.zoomTransform || d3.zoomIdentity\<close>.\<close>

definition current_transform :: "state \<Rightarrow> transform" where
  "current_transform st = (case zoomTransform st of None \<Rightarrow> zoomIdentity | Some t \<Rightarrow> t)"

text \<open>
  \<^verbatim>\<open>getSVGCoordinates(event)\<close>; \<open>px\<close> and \<open>py\<close> are the pointer's position relative to the
  SVG element (\<^verbatim>\<open>event.clientX - rect.left\<close>, \<^verbatim>\<open>event.clientY - rect.top\<close>).
\<close>

definition getSVGCoordinates :: "real \<Rightarrow> real \<Rightarrow> state \<Rightarrow> real \<times> real" where
  "getSVGCoordinates px py st =
     (let transform = current_transform st
      in ((px - t_x transform) / t_k transform, (py - t_y transform) / t_k transform))"

text \<open>
  \<^verbatim>\<open>handleWheel(event)\<close>. The transform handed to \<^verbatim>\<open>state.zoom.transform\<close> is the one the
  zoom behaviour reports in its last zoom event, where the listener of lines 200-204 stores
  it in \<^verbatim>\<open>state.zoomTransform\<close>; \<^verbatim>\<open>zoom.transform\<close> does not apply the scale extent.
\<close>

definition handleWheel :: "real \<Rightarrow> real \<Rightarrow> real \<Rightarrow> state \<Rightarrow> state" where
  "handleWheel deltaY mouseX mouseY st =
     (let transform = current_transform st;
          zoomFactor = (if deltaY > 0 then 9 / 10 else 11 / 10);
          newScale = t_k transform * zoomFactor;
          clampedScale = max zoomMin (min zoomMax newScale);
          newTransform = scale (translate transform
              (mouseX - (mouseX - t_x transform) * (clampedScale / t_k transform))
              (mouseY - (mouseY - t_y transform) * (clampedScale / t_k transform))) clampedScale
      in st\<lparr>zoomTransform := Some newTransform\<rparr>)"

section \<open>Debounced saving (lines 126-132, 504-522, 1018-1028)\<close>

text \<open>The listener passed to \<^verbatim>\<open>debounce\<close> at line 127.\<close>

definition change_handler :: "state \<Rightarrow> state" where
  "change_handler st =
     (case selectedNode st of
        None \<Rightarrow> st
      | Some r \<Rightarrow> saveGraph (st\<lparr>store := (store st)[r := (store st ! r)\<lparr>node_note := editorValue st\<rparr>]\<rparr>))"

text \<open>
  \<^verbatim>\<open>debounce(func, wait)\<close>: \<open>executedFunction\<close> clears the pending timer and sets a new one;
  \<open>later\<close> is the timer's callback. The closure variable \<^verbatim>\<open>timeout\<close> is the field
  \<open>timeout\<close>, holding the time at which the pending timer fires.
\<close>

definition later :: "(state \<Rightarrow> state) \<Rightarrow> state \<Rightarrow> state" where
  "later func st = func (st\<lparr>timeout := None\<rparr>)"



text \<open>
  While time passes the simulation started by \<^verbatim>\<open>restart()\<close> ticks and writes new
  positions into the node objects in place; \<open>pos\<close> gives, for every node object, the
  position it has been moved to.
\<close>

definition simulate :: "(ref \<Rightarrow> real \<times> real) \<Rightarrow> state \<Rightarrow> state" where
  "simulate pos st =
     st\<lparr>store := map (\<lambda>(i, n). n\<lparr>node_x := fst (pos i), node_y := snd (pos i)\<rparr>)
                       (enumerate 0 (store st))\<rparr>"


datatype key = Escape | KeyS | Delete | OtherKey

text \<open>\<^verbatim>\<open>handleKeydown(event)\<close>.\<close>

definition handleKeydown :: "key \<Rightarrow> bool \<Rightarrow> state \<Rightarrow> js_error + state" where
  "handleKeydown k ctrlKey st =
     (let st1 = (if k = Escape then clearConnectionSelection (closeEditor st) else st);
          st2 = (if ctrlKey \<and> k = KeyS then saveGraph st1 else st1)
      in if k = Delete \<and> selectedNode st2 \<noteq> None
         then deleteSelectedNode ThisUndefined st2
         else Inr st2)"

section \<open>Example sessions\<close>

text \<open>A root node created at (100, 100), then a right-click on it.\<close>

definition spawn_trace :: state where
  "spawn_trace = handleNodeRightClick 0 0 [] (snd (createNode 100 100 Root None [] (init_state 800 600)))"

text \<open>The state after the root node alone, and the same with that node selected.\<close>

definition root_state :: state where
  "root_state = snd (createNode 100 100 Root None [] (init_state 800 600))"

definition delete_input :: state where
  "delete_input = root_state\<lparr>selectedNode := Some 0\<rparr>"

text \<open>
  The link of \<open>spawn_trace\<close>, a link whose source is an id of no node, and the state after
  a second link between the same two nodes.
\<close>

definition spawn_link :: link where
  "spawn_link = \<lparr>source = Obj 0, target = Obj 1, link_id = [49, 45, 50], isBreakerLink = False\<rparr>"

definition stale_link :: link where
  "stale_link = \<lparr>source = Ident 7, target = Obj 1, link_id = [55, 45, 50], isBreakerLink = False\<rparr>"

definition parallel_state :: state where
  "parallel_state = createLink 0 1 False spawn_trace"

section \<open>What a split is expected to create\<close>

text \<open>The breaker node at a position and the breaker segment between two nodes.\<close>

definition breaker_node :: "real \<Rightarrow> real \<Rightarrow> jsstring \<Rightarrow> int \<Rightarrow> node" where
  "breaker_node x y now i =
     \<lparr>node_id = i, node_x = x, node_y = y, node_fx = None, node_fy = None, node_type = Breaker,
      node_note = breakerNote, createdAt = now, parentId = None, children = []\<rparr>"

definition segment :: "ref \<Rightarrow> ref \<Rightarrow> int \<Rightarrow> int \<Rightarrow> link" where
  "segment a b i j =
     \<lparr>source = Obj a, target = Obj b, link_id = show_int i @ [45] @ show_int j,
      isBreakerLink = True\<rparr>"

section \<open>The context of a node, as a list of entries\<close>

text \<open>
  The last \<open>n\<close> code units of a string; a note cut to its last 400 code units behind an
  ellipsis, and a note cut to its first 400 code units.
\<close>

definition last_chars :: "nat \<Rightarrow> jsstring \<Rightarrow> jsstring" where
  "last_chars n s = rev (take n (rev s))"

definition tail_truncated :: "jsstring \<Rightarrow> jsstring" where
  "tail_truncated s = (if length s \<le> 400 then s else [46, 46, 46] @ last_chars 400 s)"

definition head_truncated :: "jsstring \<Rightarrow> jsstring" where
  "head_truncated s = (if length s \<le> 400 then s else take 400 s)"

text \<open>
  The entry of the parent of a node: present when \<open>parentId\<close> is a non-zero id of a node
  whose trimmed note is not empty. The entry of one child id, with the truncation as a
  parameter.
\<close>

definition parent_entry :: "state \<Rightarrow> node \<Rightarrow> context_part list" where
  "parent_entry st nd =
     (case parentId nd of
        None \<Rightarrow> []
      | Some pid \<Rightarrow>
          (case find_node st pid of
             None \<Rightarrow> []
           | Some p \<Rightarrow>
               if pid \<noteq> 0 \<and> trim (node_note (store st ! p)) \<noteq> []
               then [\<lparr>part_label = FromParent (node_id (store st ! p)),
                      part_text = tail_truncated (trim (node_note (store st ! p)))\<rparr>]
               else []))"

definition child_entry :: "(jsstring \<Rightarrow> jsstring) \<Rightarrow> state \<Rightarrow> int \<Rightarrow> context_part list" where
  "child_entry trunc st cid =
     (case find_node st cid of
        None \<Rightarrow> []
      | Some c \<Rightarrow>
          if trim (node_note (store st ! c)) \<noteq> []
          then [\<lparr>part_label = FromChild (node_id (store st ! c)),
                 part_text = trunc (trim (node_note (store st ! c)))\<rparr>]
          else [])"

text \<open>
  The context with the children's entries as the specification words them: after the
  parent's entry, the children's entries in the order of \<open>children\<close>, each cut to its
  first 400 code units when it is longer.
\<close>

definition contextOf_spec :: "ref \<Rightarrow> state \<Rightarrow> context_part list" where
  "contextOf_spec node st =
     parent_entry st (store st ! node) @
     concat (map (child_entry head_truncated st) (children (store st ! node)))"

text \<open>
  A persisted graph of a root with one child whose note has 401 code units, and the state
  after loading it into the initial state.
\<close>

definition ctx_payload :: payload where
  "ctx_payload =
     \<lparr>p_nodes = Some
        [\<lparr>w_id = 1, w_type = Root, w_note = [], w_x = Some 100, w_y = Some 100,
          w_createdAt = [], w_parentId = None, w_children = Some [2]\<rparr>,
         \<lparr>w_id = 2, w_type = Child, w_note = 97 # replicate 400 98, w_x = Some 250,
          w_y = Some 100, w_createdAt = [], w_parentId = Some 1, w_children = Some []\<rparr>],
      p_links = Some [\<lparr>w_source = Some 1, w_target = Some 2, w_isBreakerLink = False\<rparr>]\<rparr>"

definition ctx_state :: state where
  "ctx_state = snd (loadGraph ctx_payload (\<lambda>_. 0) (\<lambda>_. 0) (init_state 800 600))"

section \<open>What loading is expected to produce\<close>

text \<open>
  A wire link resolves when both of its ids are ids of nodes of the payload.
  \<open>loaded_nodes\<close> are the node objects made from the payload's nodes, \<open>after_nodes\<close> the
  state once \<^verbatim>\<open>state.nodes\<close> has been assigned. \<open>link_ends\<close> and \<open>wire_ends\<close> read the
  ids of the endpoints and the flag of a link and of a wire link; a link is resolved in a
  state when both endpoints are node objects of \<^verbatim>\<open>state.nodes\<close>.
\<close>

definition link_resolves :: "wire_node list \<Rightarrow> wire_link \<Rightarrow> bool" where
  "link_resolves ns l =
     ((case w_source l of None \<Rightarrow> False | Some i \<Rightarrow> i \<in> set (map w_id ns)) \<and>
      (case w_target l of None \<Rightarrow> False | Some i \<Rightarrow> i \<in> set (map w_id ns)))"

definition loaded_nodes :: "wire_node list \<Rightarrow> (nat \<Rightarrow> real) \<Rightarrow> (nat \<Rightarrow> real) \<Rightarrow> state \<Rightarrow> node list" where
  "loaded_nodes ns rx ry st = map (\<lambda>(i, n). load_node st (rx i) (ry i) n) (enumerate 0 ns)"

definition link_ends :: "state \<Rightarrow> link \<Rightarrow> int option \<times> int option \<times> bool" where
  "link_ends st l = (endpoint_wire_id st (source l), endpoint_wire_id st (target l), isBreakerLink l)"

definition wire_ends :: "wire_link \<Rightarrow> int option \<times> int option \<times> bool" where
  "wire_ends l = (w_source l, w_target l, w_isBreakerLink l)"

definition after_nodes :: "wire_node list \<Rightarrow> (nat \<Rightarrow> real) \<Rightarrow> (nat \<Rightarrow> real) \<Rightarrow> state \<Rightarrow> state" where
  "after_nodes ns rx ry st =
     st\<lparr>store := store st @ loaded_nodes ns rx ry st,
        nodes := [length (store st)..<length (store st) + length ns]\<rparr>"

definition link_is_resolved :: "state \<Rightarrow> link \<Rightarrow> bool" where
  "link_is_resolved st l =
     (case (source l, target l) of
        (Obj a, Obj b) \<Rightarrow> a \<in> set (nodes st) \<and> b \<in> set (nodes st)
      | _ \<Rightarrow> False)"

text \<open>
  A payload with a link to the id 9 of no node, and a payload with links and no nodes.
\<close>

definition dangling_nodes :: "wire_node list" where
  "dangling_nodes =
     [\<lparr>w_id = 1, w_type = Root, w_note = [], w_x = Some 100, w_y = Some 100,
       w_createdAt = [], w_parentId = None, w_children = Some []\<rparr>,
      \<lparr>w_id = 2, w_type = Root, w_note = [], w_x = Some 250, w_y = Some 100,
       w_createdAt = [], w_parentId = None, w_children = Some []\<rparr>]"

definition dangling_links :: "wire_link list" where
  "dangling_links =
     [\<lparr>w_source = Some 1, w_target = Some 9, w_isBreakerLink = False\<rparr>,
      \<lparr>w_source = Some 1, w_target = Some 2, w_isBreakerLink = False\<rparr>]"

definition dangling_payload :: payload where
  "dangling_payload = \<lparr>p_nodes = Some dangling_nodes, p_links = Some dangling_links\<rparr>"

definition links_only_payload :: payload where
  "links_only_payload =
     \<lparr>p_nodes = Some [],
      p_links = Some [\<lparr>w_source = Some 1, w_target = Some 2, w_isBreakerLink = False\<rparr>]\<rparr>"

text \<open>A payload whose only node has the id \<open>2 ^ 53\<close>.\<close>

definition big_id_nodes :: "wire_node list" where
  "big_id_nodes =
     [\<lparr>w_id = 9007199254740992, w_type = Root, w_note = [], w_x = Some 100, w_y = Some 100,
       w_createdAt = [], w_parentId = None, w_children = Some []\<rparr>]"

definition big_id_payload :: payload where
  "big_id_payload = \<lparr>p_nodes = Some big_id_nodes, p_links = Some []\<rparr>"

section \<open>Example sessions of the viewport, the simulation and the editor\<close>

text \<open>
  One wheel event with negative \<^verbatim>\<open>deltaY\<close> (zooming in) at the pointer position
  (100, 100); the state after one such event from the initial state; a state whose scale
  is \<open>zoomMax\<close>.
\<close>

definition wheel_in :: "state \<Rightarrow> state" where
  "wheel_in st = handleWheel (- 1) 100 100 st"

definition zoom_once :: state where
  "zoom_once = handleWheel (- 1) 100 100 (init_state 800 600)"

definition max_zoom :: state where
  "max_zoom = (init_state 800 600)\<lparr>zoomTransform := Some \<lparr>t_k = 5, t_x = 0, t_y = 0\<rparr>\<rparr>"

text \<open>The graph of \<open>spawn_trace\<close> after nine more links between its two nodes.\<close>

definition ten_links :: state where
  "ten_links = (createLink 0 1 False ^^ 9) spawn_trace"




section \<open>Parent/child bookkeeping\<close>

lemma js_add_exact: "\<bar>a + b\<bar> \<le> 2 ^ 53 \<Longrightarrow> js_add a b = a + b"
proof -
  assume "\<bar>a + b\<bar> \<le> 2 ^ 53"
  then have "nat \<bar>a + b\<bar> \<le> 2 ^ 53"
    by (simp add: nat_le_iff)
  then show ?thesis
    by (simp add: js_add_def round_double_def Let_def)
qed

lemma digits_small: "n < 10 \<Longrightarrow> digits n = [48 + n]"
  by (simp add: digits.simps)

lemma spawn_trace_store:
  "store spawn_trace =
     [\<lparr>node_id = 1, node_x = 100, node_y = 100, node_fx = None, node_fy = None, node_type = Root,
       node_note = rootNote, createdAt = [], parentId = None, children = []\<rparr>,
      \<lparr>node_id = 2, node_x = 250, node_y = 100, node_fx = None, node_fy = None, node_type = Child,
       node_note = [], createdAt = [], parentId = Some 1, children = []\<rparr>]"
  by (simp add: spawn_trace_def handleNodeRightClick_def createNode_def createLink_def
      clearConnectionSelection_def init_state_def linkDistance_def Let_def js_add_exact)

lemma spawn_trace_nodes: "nodes spawn_trace = [0, 1]"
  by (simp add: spawn_trace_def handleNodeRightClick_def createNode_def createLink_def
      clearConnectionSelection_def init_state_def Let_def)

text \<open>
  C1. Creating a root node and spawning a child from it by right-click leaves the child
  with \<open>parentId\<close> equal to the root's id while the root's \<open>children\<close> stays empty: the
  two halves of the bookkeeping disagree after the call.
\<close>

theorem right_click_spawn_children_not_updated:
  "parentId (store spawn_trace ! 1) = Some (node_id (store spawn_trace ! 0)) \<and>
   node_id (store spawn_trace ! 1) \<notin> set (children (store spawn_trace ! 0)) \<and>
   children (store spawn_trace ! 0) = []"
  by (simp add: spawn_trace_store)

lemma spawn_trace_inconsistent: "\<not> parent_child_consistent spawn_trace"
  by (simp add: parent_child_consistent_def live_def spawn_trace_store spawn_trace_nodes)

text \<open>
  Neither \<open>createNode\<close> nor the right-click handler writes a \<open>children\<close> array of an
  existing node; the helper that is never called would restore the invariant.
\<close>

lemma createNode_children:
  "list_all (\<lambda>n. children n = []) (store st) \<Longrightarrow>
   list_all (\<lambda>n. children n = []) (store (snd (createNode x y ty pid now st)))"
  by (simp add: createNode_def Let_def)

lemma handleNodeRightClick_children:
  "list_all (\<lambda>n. children n = []) (store st) \<Longrightarrow>
   list_all (\<lambda>n. children n = []) (store (handleNodeRightClick d rnd now st))"
  by (simp add: handleNodeRightClick_def createNode_def createLink_def clearConnectionSelection_def
      Let_def split: option.splits)

lemma spawn_with_helper_consistent:
  "parent_child_consistent (updateParentChildRelationships (Some 0) (Some 1) True spawn_trace)"
  by (simp add: parent_child_consistent_def live_def updateParentChildRelationships_def
      spawn_trace_store spawn_trace_nodes Let_def)

section \<open>Node deletion\<close>

lemma root_state_eq: "root_state =
   \<lparr>store = [\<lparr>node_id = 1, node_x = 100, node_y = 100, node_fx = None, node_fy = None, node_type = Root,
       node_note = rootNote, createdAt = [], parentId = None, children = []\<rparr>], nodes = [0], links = [], nextId = 2, selectedNode = None,
      connectionSourceNode = None, isDragging = False, isPanning = False,
      width = 800, height = 600, zoomTransform = None, charge = chargeStrength,
      editorValue = [], clock = 0, timeout = None, posted = []\<rparr>"
  by (simp add: root_state_def createNode_def init_state_def Let_def js_add_exact)

text \<open>
  C2. With node 1 selected, \<open>deleteSelectedNode\<close> raises before it writes anything: a
  TypeError when called from the key handler (\<open>this\<close> is undefined), a ReferenceError
  when called as the button's listener (the identifier \<open>node\<close> is unbound). The node is
  not removed.
\<close>

theorem delete_selected_node_raises:
  "selectedNode delete_input = Some 0 \<and> nodes delete_input = [0] \<and>
   deleteSelectedNode ThisElement delete_input = Inl ReferenceError \<and>
   deleteSelectedNode ThisUndefined delete_input = Inl TypeError \<and>
   handleKeydown Delete False delete_input = Inl TypeError"
  by (simp add: delete_input_def root_state_eq deleteSelectedNode_def handleKeydown_def
      find_parent_of_unbound_def Let_def)

lemma deleteSelectedNode_raises:
  "selectedNode st \<noteq> None \<Longrightarrow> nodes st \<noteq> [] \<Longrightarrow> \<exists>e. deleteSelectedNode this st = Inl e"
  by (cases this; cases "nodes st") (auto simp: deleteSelectedNode_def find_parent_of_unbound_def Let_def)

section \<open>Link splitting\<close>

lemma createBreakerOnLine_unresolved:
  "resolve_endpoint st (source ld) = None \<or> resolve_endpoint st (target ld) = None \<Longrightarrow>
   createBreakerOnLine ld now st = (None, st)"
  by (auto simp: createBreakerOnLine_def split: option.splits)

lemma createBreakerOnLine_resolved:
  assumes "resolve_endpoint st (source ld) = Some s" and "resolve_endpoint st (target ld) = Some t"
    and "s < length (store st)" and "t < length (store st)"
  shows "createBreakerOnLine ld now st =
     (Some (length (store st)),
      st\<lparr>store := store st @ [breaker_node ((node_x (store st ! s) + node_x (store st ! t)) / 2)
                                 ((node_y (store st ! s) + node_y (store st ! t)) / 2) now (nextId st)],
         nodes := nodes st @ [length (store st)],
         nextId := js_add (nextId st) 1,
         links := filter (\<lambda>l. link_id l \<noteq> link_id ld) (links st) @
                  [segment s (length (store st)) (node_id (store st ! s)) (nextId st),
                   segment (length (store st)) t (nextId st) (node_id (store st ! t))],
         charge := chargeStrength * min (real (length (filter (\<lambda>l. link_id l \<noteq> link_id ld) (links st)) + 2) / 5) 2\<rparr>)"
  using assms
  by (simp add: createBreakerOnLine_def createNode_def createLink_def Let_def breaker_node_def
      segment_def nth_append)

lemma filter_unique_remove1:
  "distinct (map f xs) \<Longrightarrow> x \<in> set xs \<Longrightarrow> filter (\<lambda>l. f l \<noteq> f x) xs = remove1 x xs"
proof (induction xs)
  case Nil
  then show ?case by simp
next
  case (Cons a xs)
  show ?case
  proof (cases "a = x")
    case True
    with Cons.prems have "\<forall>l\<in>set xs. f l \<noteq> f x" by (auto simp: image_iff)
    then have "filter (\<lambda>l. f l \<noteq> f x) xs = xs" by (simp add: filter_id_conv)
    with True show ?thesis by simp
  next
    case False
    with Cons.prems have "f a \<noteq> f x" by (auto simp: image_iff)
    with Cons False show ?thesis by simp
  qed
qed

lemma show_int_small: "0 \<le> i \<Longrightarrow> i < 10 \<Longrightarrow> show_int i = [48 + nat i]"
  by (simp add: show_int_def digits_small)

lemma spawn_trace_links: "links spawn_trace = [spawn_link]"
  by (simp add: spawn_trace_def handleNodeRightClick_def createNode_def createLink_def
      clearConnectionSelection_def init_state_def Let_def show_int_small spawn_link_def
      js_add_exact)

lemma spawn_trace_nextId: "nextId spawn_trace = 3"
  by (simp add: spawn_trace_def handleNodeRightClick_def createNode_def createLink_def
      clearConnectionSelection_def init_state_def Let_def js_add_exact)

text \<open>
  What a split does in general. When an endpoint of the link does not resolve,
  \<open>createBreakerOnLine\<close> returns nothing and leaves the state unchanged. When both resolve
  to node objects, it removes every link whose id is the id of the given link, creates one
  breaker node at the midpoint of the endpoints' positions, and appends the two breaker
  segments source to breaker and breaker to target; when the link ids of the graph are
  distinct, the links removed are exactly the given link.
\<close>

lemma createBreakerOnLine_effect:
  "(resolve_endpoint st (source ld) = None \<or> resolve_endpoint st (target ld) = None \<longrightarrow>
      createBreakerOnLine ld now st = (None, st)) \<and>
   (resolve_endpoint st (source ld) = Some s \<and> resolve_endpoint st (target ld) = Some t \<and>
    s < length (store st) \<and> t < length (store st) \<longrightarrow>
      (let b = length (store st);
           res = createBreakerOnLine ld now st;
           kept = filter (\<lambda>l. link_id l \<noteq> link_id ld) (links st);
           new = [segment s b (node_id (store st ! s)) (nextId st),
                  segment b t (nextId st) (node_id (store st ! t))]
       in fst res = Some b \<and>
          store (snd res) = store st @
            [breaker_node ((node_x (store st ! s) + node_x (store st ! t)) / 2)
                          ((node_y (store st ! s) + node_y (store st ! t)) / 2) now (nextId st)] \<and>
          nodes (snd res) = nodes st @ [b] \<and>
          links (snd res) = kept @ new \<and>
          (distinct (map link_id (links st)) \<and> ld \<in> set (links st) \<longrightarrow>
             links (snd res) = remove1 ld (links st) @ new)))"
proof (intro conjI impI)
  assume "resolve_endpoint st (source ld) = None \<or> resolve_endpoint st (target ld) = None"
  then show "createBreakerOnLine ld now st = (None, st)"
    by (rule createBreakerOnLine_unresolved)
next
  assume a: "resolve_endpoint st (source ld) = Some s \<and> resolve_endpoint st (target ld) = Some t \<and>
    s < length (store st) \<and> t < length (store st)"
  have r: "createBreakerOnLine ld now st =
     (Some (length (store st)),
      st\<lparr>store := store st @ [breaker_node ((node_x (store st ! s) + node_x (store st ! t)) / 2)
                                 ((node_y (store st ! s) + node_y (store st ! t)) / 2) now (nextId st)],
         nodes := nodes st @ [length (store st)],
         nextId := js_add (nextId st) 1,
         links := filter (\<lambda>l. link_id l \<noteq> link_id ld) (links st) @
                  [segment s (length (store st)) (node_id (store st ! s)) (nextId st),
                   segment (length (store st)) t (nextId st) (node_id (store st ! t))],
         charge := chargeStrength * min (real (length (filter (\<lambda>l. link_id l \<noteq> link_id ld) (links st)) + 2) / 5) 2\<rparr>)"
    using a by (intro createBreakerOnLine_resolved) simp_all
  show "let b = length (store st);
           res = createBreakerOnLine ld now st;
           kept = filter (\<lambda>l. link_id l \<noteq> link_id ld) (links st);
           new = [segment s b (node_id (store st ! s)) (nextId st),
                  segment b t (nextId st) (node_id (store st ! t))]
       in fst res = Some b \<and>
          store (snd res) = store st @
            [breaker_node ((node_x (store st ! s) + node_x (store st ! t)) / 2)
                          ((node_y (store st ! s) + node_y (store st ! t)) / 2) now (nextId st)] \<and>
          nodes (snd res) = nodes st @ [b] \<and>
          links (snd res) = kept @ new \<and>
          (distinct (map link_id (links st)) \<and> ld \<in> set (links st) \<longrightarrow>
             links (snd res) = remove1 ld (links st) @ new)"
    unfolding Let_def r by (simp add: filter_unique_remove1)
qed

text \<open>The split of the link of \<open>spawn_trace\<close>, and of a link with an unresolvable source.\<close>

lemma createBreakerOnLine_example:
  "fst (createBreakerOnLine spawn_link [] spawn_trace) = Some 2 \<and>
   store (snd (createBreakerOnLine spawn_link [] spawn_trace)) ! 2 = breaker_node 175 100 [] 3 \<and>
   links (snd (createBreakerOnLine spawn_link [] spawn_trace)) = [segment 0 2 1 3, segment 2 1 3 2] \<and>
   links (snd (createBreakerOnLine spawn_link [] spawn_trace)) =
     remove1 spawn_link (links spawn_trace) @ [segment 0 2 1 3, segment 2 1 3 2] \<and>
   createBreakerOnLine stale_link [] spawn_trace = (None, spawn_trace)"
  using createBreakerOnLine_effect [of spawn_trace spawn_link "[]" 0 1]
    createBreakerOnLine_effect [of spawn_trace stale_link "[]"]
  by (simp add: Let_def spawn_trace_links spawn_trace_store spawn_trace_nodes spawn_trace_nextId
      resolve_endpoint_def find_node_def spawn_link_def stale_link_def numeral_2_eq_2)

text \<open>
  C3. With two links between the same two nodes (the spawn link and a second link drawn
  between them), splitting one of them removes both: the links left are the two breaker
  segments alone, not the other link followed by the two segments.
\<close>

theorem split_link_removes_parallel_links:
  "links parallel_state = [spawn_link, spawn_link] \<and>
   links (snd (createBreakerOnLine spawn_link [] parallel_state)) = [segment 0 2 1 3, segment 2 1 3 2] \<and>
   links (snd (createBreakerOnLine spawn_link [] parallel_state)) \<noteq>
     remove1 spawn_link (links parallel_state) @ [segment 0 2 1 3, segment 2 1 3 2]"
  by (simp add: parallel_state_def createLink_def createBreakerOnLine_def createNode_def Let_def
      spawn_trace_links spawn_trace_store spawn_trace_nodes spawn_trace_nextId resolve_endpoint_def
      show_int_small spawn_link_def segment_def)

section \<open>Context of a node\<close>

lemma trim_empty [simp]: "trim [] = []"
  by (simp add: trim_def)

lemma displayText_tail: "displayText s = tail_truncated s"
  by (auto simp: displayText_def tail_truncated_def last_chars_def MAX_CHARS_def substring_def
      take_rev)

lemma foldl_append_concat:
  "foldl (\<lambda>parts x. parts @ f x) acc xs = acc @ concat (map f xs)"
  by (induction xs arbitrary: acc) simp_all

lemma child_step:
  "(case find_node st childId of
      None \<Rightarrow> parts
    | Some c \<Rightarrow>
        (let childNode = store st ! c in
         if node_note childNode \<noteq> [] \<and> trim (node_note childNode) \<noteq> []
         then parts @
           [\<lparr>part_label = FromChild (node_id childNode),
             part_text = displayText (trim (node_note childNode))\<rparr>]
         else parts)) = parts @ child_entry tail_truncated st childId"
  by (auto simp: child_entry_def displayText_tail Let_def split: option.splits)

text \<open>
  C4 (amended). The context of a node is the entry of its parent (when \<open>parentId\<close> is a
  non-zero id of a node with a non-blank note) followed by the entries of its children in
  the order of \<open>children\<close>, skipping ids of no node and blank notes; every entry, the
  children's too, holds the trimmed note, cut to its last 400 code units behind an ellipsis
  when it is longer than 400.
\<close>

theorem context_is_tail_truncated:
  "getNodeContext node st =
     parent_entry st (store st ! node) @
     concat (map (child_entry tail_truncated st) (children (store st ! node)))"
proof -
  have p: "(case parentId (store st ! node) of
               None \<Rightarrow> []
             | Some pid \<Rightarrow>
                 if pid = 0 then []
                 else
                   (case find_node st pid of
                      None \<Rightarrow> []
                    | Some p \<Rightarrow>
                        (let parentNode = store st ! p in
                         if node_note parentNode \<noteq> [] \<and> trim (node_note parentNode) \<noteq> []
                         then [] @
                           [\<lparr>part_label = FromParent (node_id parentNode),
                             part_text = displayText (trim (node_note parentNode))\<rparr>]
                         else []))) = parent_entry st (store st ! node)"
    by (auto simp: parent_entry_def displayText_tail Let_def split: option.splits)
  show ?thesis
    unfolding getNodeContext_def Let_def child_step [unfolded Let_def] foldl_append_concat
    using p [unfolded Let_def] by simp
qed

lemma trim_id: "s \<noteq> [] \<Longrightarrow> \<not> is_white_space (hd s) \<Longrightarrow> \<not> is_white_space (last s) \<Longrightarrow> trim s = s"
proof -
  assume a: "s \<noteq> []" "\<not> is_white_space (hd s)" "\<not> is_white_space (last s)"
  then have 1: "dropWhile is_white_space s = s"
    by (cases s) simp_all
  from a have "rev s \<noteq> []" "\<not> is_white_space (hd (rev s))"
    by (simp_all add: hd_rev)
  then have 2: "dropWhile is_white_space (rev s) = rev s"
    by (cases "rev s") simp_all
  show ?thesis by (simp add: trim_def 1 2)
qed

lemma ctx_state_store:
  "store ctx_state =
     [\<lparr>node_id = 1, node_x = 100, node_y = 100, node_fx = None, node_fy = None, node_type = Root,
       node_note = [], createdAt = [], parentId = None, children = [2]\<rparr>,
      \<lparr>node_id = 2, node_x = 250, node_y = 100, node_fx = None, node_fy = None, node_type = Child,
       node_note = 97 # replicate 400 98, createdAt = [], parentId = Some 1, children = []\<rparr>]"
  by (simp add: ctx_state_def ctx_payload_def loadGraph_def load_node_def init_state_def Let_def
      enumerate_eq_zip)

lemma ctx_state_nodes: "nodes ctx_state = [0, 1]"
  by (simp add: ctx_state_def ctx_payload_def loadGraph_def init_state_def Let_def upt_rec)

lemma long_note_trim: "trim (97 # replicate 400 98) = 97 # replicate 400 98"
  by (rule trim_id) (simp_all add: is_white_space_def)

text \<open>
  A child's note of 401 code units is cut to its last 400, not to its first 400: the
  context computed differs from the context as the specification words it.
\<close>

theorem child_context_not_head_truncated:
  "getNodeContext 0 ctx_state =
     [\<lparr>part_label = FromChild 2, part_text = [46, 46, 46] @ replicate 400 98\<rparr>] \<and>
   contextOf_spec 0 ctx_state =
     [\<lparr>part_label = FromChild 2, part_text = 97 # replicate 399 98\<rparr>] \<and>
   getNodeContext 0 ctx_state \<noteq> contextOf_spec 0 ctx_state"
proof -
  have f: "find_node ctx_state 2 = Some 1"
    by (simp add: find_node_def ctx_state_store ctx_state_nodes)
  have a: "getNodeContext 0 ctx_state =
     [\<lparr>part_label = FromChild 2, part_text = [46, 46, 46] @ replicate 400 98\<rparr>]"
    by (simp add: getNodeContext_def f ctx_state_store long_note_trim displayText_def
        MAX_CHARS_def substring_def)
  have b: "contextOf_spec 0 ctx_state =
     [\<lparr>part_label = FromChild 2, part_text = 97 # replicate 399 98\<rparr>]"
    by (simp add: contextOf_spec_def parent_entry_def child_entry_def f ctx_state_store
        long_note_trim head_truncated_def)
  show ?thesis unfolding a b by simp
qed

section \<open>Loading\<close>

lemma loadGraph_empty:
  "p_nodes data = None \<or> p_nodes data = Some [] \<Longrightarrow> loadGraph data rx ry st = (None, st)"
  by (auto simp: loadGraph_def)

lemma loadGraph_nonempty:
  "p_nodes data = Some ns \<Longrightarrow> ns \<noteq> [] \<Longrightarrow> p_links data = Some ls \<Longrightarrow>
   loadGraph data rx ry st =
     (None, (after_nodes ns rx ry st)
        \<lparr>links := List.map_filter (load_link (after_nodes ns rx ry st)) ls,
         nextId := js_add (Max (set (map (\<lambda>r. node_id (store (after_nodes ns rx ry st) ! r))
                                         (nodes (after_nodes ns rx ry st))))) 1\<rparr>)"
  by (simp add: loadGraph_def after_nodes_def loaded_nodes_def Let_def)

lemma length_loaded_nodes [simp]: "length (loaded_nodes ns rx ry st) = length ns"
  by (simp add: loaded_nodes_def)

lemma live_after_nodes: "live (after_nodes ns rx ry st) = loaded_nodes ns rx ry st"
  by (rule nth_equalityI) (simp_all add: live_def after_nodes_def nth_append)

lemma node_id_loaded_nodes: "map node_id (loaded_nodes ns rx ry st) = map w_id ns"
  by (rule nth_equalityI) (simp_all add: loaded_nodes_def load_node_def nth_enumerate_eq)

lemma ids_after_nodes:
  "map (\<lambda>r. node_id (store (after_nodes ns rx ry st) ! r)) (nodes (after_nodes ns rx ry st)) =
   map w_id ns"
proof -
  have "map (\<lambda>r. node_id (store (after_nodes ns rx ry st) ! r)) (nodes (after_nodes ns rx ry st)) =
        map node_id (live (after_nodes ns rx ry st))"
    by (simp add: live_def)
  then show ?thesis
    by (simp add: live_after_nodes node_id_loaded_nodes)
qed

lemma find_node_None: "find_node st i = None \<longleftrightarrow> i \<notin> set (map (\<lambda>r. node_id (store st ! r)) (nodes st))"
  by (auto simp: find_node_def find_None_iff)

lemma find_node_Some: "find_node st i = Some r \<Longrightarrow> node_id (store st ! r) = i \<and> r \<in> set (nodes st)"
  by (auto simp: find_node_def find_Some_iff)

lemma find_wire_None:
  "find_wire st v = None \<longleftrightarrow>
   (case v of None \<Rightarrow> True | Some i \<Rightarrow> i \<notin> set (map (\<lambda>r. node_id (store st ! r)) (nodes st)))"
  by (cases v) (simp_all add: find_wire_def find_node_None)

lemma find_wire_Some: "find_wire st v = Some r \<Longrightarrow> v = Some (node_id (store st ! r)) \<and> r \<in> set (nodes st)"
  by (cases v) (auto simp: find_wire_def dest: find_node_Some)

lemma load_link_None:
  "load_link (after_nodes ns rx ry st) l = None \<longleftrightarrow> \<not> link_resolves ns l"
proof -
  let ?s = "after_nodes ns rx ry st"
  have "load_link ?s l = None \<longleftrightarrow> find_wire ?s (w_source l) = None \<or> find_wire ?s (w_target l) = None"
    by (auto simp: load_link_def split: option.splits)
  also have "\<dots> \<longleftrightarrow> \<not> link_resolves ns l"
    by (auto simp: find_wire_None ids_after_nodes link_resolves_def split: option.splits)
  finally show ?thesis .
qed

lemma load_link_Some:
  assumes "load_link st1 l = Some k" and "store st2 = store st1"
  shows "link_ends st2 k = wire_ends l \<and>
         (\<exists>a b. source k = Obj a \<and> target k = Obj b \<and> a \<in> set (nodes st1) \<and> b \<in> set (nodes st1))"
  using assms
  by (auto simp: load_link_def link_ends_def wire_ends_def endpoint_wire_id_def
      split: option.splits dest!: find_wire_Some)

lemma map_filter_ends:
  assumes "\<And>l k. f l = Some k \<Longrightarrow> g k = h l" and "\<And>l. P l \<longleftrightarrow> f l \<noteq> None"
  shows "map g (List.map_filter f ls) = map h (filter P ls)"
proof (induction ls)
  case Nil
  then show ?case by (simp add: List.map_filter_simps)
next
  case (Cons a ls)
  show ?case
  proof (cases "f a")
    case None
    with assms(2) [of a] Cons show ?thesis by (simp add: List.map_filter_simps)
  next
    case (Some k)
    with assms(2) [of a] assms(1) [of a k] Cons show ?thesis by (simp add: List.map_filter_simps)
  qed
qed

lemma list_all_map_filter:
  assumes "\<And>l k. f l = Some k \<Longrightarrow> Q k"
  shows "list_all Q (List.map_filter f ls)"
  using assms by (induction ls) (auto simp: List.map_filter_simps split: option.splits)

lemma loadGraph_links:
  assumes "p_nodes data = Some ns" and "ns \<noteq> []" and "p_links data = Some ls"
  shows "map (link_ends (snd (loadGraph data rx ry st))) (links (snd (loadGraph data rx ry st))) =
           map wire_ends (filter (link_resolves ns) ls)"
    and "list_all (link_is_resolved (snd (loadGraph data rx ry st))) (links (snd (loadGraph data rx ry st)))"
proof -
  let ?s1 = "after_nodes ns rx ry st"
  let ?s = "snd (loadGraph data rx ry st)"
  have st: "store ?s = store ?s1" and nd: "nodes ?s = nodes ?s1"
    and lk: "links ?s = List.map_filter (load_link ?s1) ls"
    using assms by (simp_all add: loadGraph_nonempty)
  show "map (link_ends ?s) (links ?s) = map wire_ends (filter (link_resolves ns) ls)"
    unfolding lk
  proof (rule map_filter_ends)
    fix l k assume "load_link ?s1 l = Some k"
    then show "link_ends ?s k = wire_ends l"
      using load_link_Some [OF _ st] by blast
  next
    fix l show "link_resolves ns l \<longleftrightarrow> load_link ?s1 l \<noteq> None"
      by (simp add: load_link_None)
  qed
  show "list_all (link_is_resolved ?s) (links ?s)"
    unfolding lk
  proof (rule list_all_map_filter)
    fix l k assume "load_link ?s1 l = Some k"
    from load_link_Some [OF this st] show "link_is_resolved ?s k"
      by (auto simp: link_is_resolved_def nd)
  qed
qed

lemma js_add_safe_ids:
  assumes "list_all (\<lambda>n. \<bar>w_id n\<bar> < 2 ^ 53) ns" and "ns \<noteq> []"
  shows "js_add (Max (set (map w_id ns))) 1 = Max (set (map w_id ns)) + 1"
proof -
  have "Max (set (map w_id ns)) \<in> set (map w_id ns)"
    using assms(2) by (intro Max_in) simp_all
  with assms(1) have "\<bar>Max (set (map w_id ns))\<bar> < 2 ^ 53"
    by (auto simp: list_all_iff)
  then show ?thesis
    by (intro js_add_exact) simp
qed

text \<open>
  C5 (amended). Loading a payload with a non-empty node list and a link list raises no
  error; the loaded nodes are the payload's nodes whatever the links are; the links kept
  are, in order, the wire links both of whose ids are ids of loaded nodes, each attached to
  node objects of the state; and the next id is the greatest loaded id plus one as the
  double-precision sum, which is exactly that sum when every loaded id is below \<open>2 ^ 53\<close>
  in magnitude. With no nodes in the payload the next id is left as it was, which is 1 in
  the initial state.
\<close>

theorem load_reconciliation:
  "(p_nodes data = Some ns \<and> ns \<noteq> [] \<and> p_links data = Some ls \<longrightarrow>
      (let res = loadGraph data rx ry st in
       fst res = None \<and>
       live (snd res) = loaded_nodes ns rx ry st \<and>
       map node_id (live (snd res)) = map w_id ns \<and>
       map (link_ends (snd res)) (links (snd res)) = map wire_ends (filter (link_resolves ns) ls) \<and>
       list_all (link_is_resolved (snd res)) (links (snd res)) \<and>
       nextId (snd res) = js_add (Max (set (map w_id ns))) 1 \<and>
       (list_all (\<lambda>n. \<bar>w_id n\<bar> < 2 ^ 53) ns \<longrightarrow>
          nextId (snd res) = Max (set (map w_id ns)) + 1))) \<and>
   (p_nodes data = None \<or> p_nodes data = Some [] \<longrightarrow>
      fst (loadGraph data rx ry st) = None \<and>
      nextId (snd (loadGraph data rx ry st)) = nextId st \<and>
      nextId (snd (loadGraph data rx ry (init_state w h))) = 1)"
proof (intro conjI impI)
  assume a: "p_nodes data = Some ns \<and> ns \<noteq> [] \<and> p_links data = Some ls"
  then have n: "p_nodes data = Some ns" "ns \<noteq> []" "p_links data = Some ls" by simp_all
  have lv: "live (snd (loadGraph data rx ry st)) = loaded_nodes ns rx ry st"
    using live_after_nodes [of ns rx ry st] by (simp add: loadGraph_nonempty [OF n] live_def)
  have nx: "nextId (snd (loadGraph data rx ry st)) = js_add (Max (set (map w_id ns))) 1"
    by (simp add: loadGraph_nonempty [OF n] ids_after_nodes)
  have ex: "list_all (\<lambda>n. \<bar>w_id n\<bar> < 2 ^ 53) ns \<longrightarrow>
      js_add (Max (set (map w_id ns))) 1 = Max (set (map w_id ns)) + 1"
    using js_add_safe_ids [OF _ n(2)] by blast
  show "let res = loadGraph data rx ry st in
       fst res = None \<and>
       live (snd res) = loaded_nodes ns rx ry st \<and>
       map node_id (live (snd res)) = map w_id ns \<and>
       map (link_ends (snd res)) (links (snd res)) = map wire_ends (filter (link_resolves ns) ls) \<and>
       list_all (link_is_resolved (snd res)) (links (snd res)) \<and>
       nextId (snd res) = js_add (Max (set (map w_id ns))) 1 \<and>
       (list_all (\<lambda>n. \<bar>w_id n\<bar> < 2 ^ 53) ns \<longrightarrow>
          nextId (snd res) = Max (set (map w_id ns)) + 1)"
    unfolding Let_def
    using lv nx ex loadGraph_links [OF n, of rx ry st]
    by (simp add: node_id_loaded_nodes loadGraph_nonempty [OF n])
next
  assume e: "p_nodes data = None \<or> p_nodes data = Some []"
  then show "fst (loadGraph data rx ry st) = None"
    by (simp add: loadGraph_empty)
  from e show "nextId (snd (loadGraph data rx ry st)) = nextId st"
    by (simp add: loadGraph_empty)
  from e show "nextId (snd (loadGraph data rx ry (init_state w h))) = 1"
    by (simp add: loadGraph_empty init_state_def)
qed

text \<open>
  The theorem at a payload with one dangling and one resolving link, and at a payload with
  no nodes.
\<close>

theorem load_reconciliation_witness:
  "fst (loadGraph dangling_payload (\<lambda>_. 0) (\<lambda>_. 0) (init_state 800 600)) = None \<and>
   map node_id (live (snd (loadGraph dangling_payload (\<lambda>_. 0) (\<lambda>_. 0) (init_state 800 600)))) = [1, 2] \<and>
   map (link_ends (snd (loadGraph dangling_payload (\<lambda>_. 0) (\<lambda>_. 0) (init_state 800 600))))
     (links (snd (loadGraph dangling_payload (\<lambda>_. 0) (\<lambda>_. 0) (init_state 800 600)))) =
     [(Some 1, Some 2, False)] \<and>
   nextId (snd (loadGraph dangling_payload (\<lambda>_. 0) (\<lambda>_. 0) (init_state 800 600))) = 3 \<and>
   nextId (snd (loadGraph links_only_payload (\<lambda>_. 0) (\<lambda>_. 0) (init_state 800 600))) = 1"
proof -
  let ?s = "init_state 800 600"
  have n: "p_nodes dangling_payload = Some dangling_nodes \<and> dangling_nodes \<noteq> [] \<and>
           p_links dangling_payload = Some dangling_links"
    by (simp add: dangling_payload_def dangling_nodes_def)
  have e: "p_nodes links_only_payload = None \<or> p_nodes links_only_payload = Some []"
    by (simp add: links_only_payload_def)
  have i: "map w_id dangling_nodes = [1, 2]"
    by (simp add: dangling_nodes_def)
  have sf: "list_all (\<lambda>n. \<bar>w_id n\<bar> < 2 ^ 53) dangling_nodes"
    by (simp add: dangling_nodes_def)
  have f: "map wire_ends (filter (link_resolves dangling_nodes) dangling_links) =
           [(Some 1, Some 2, False)]"
    by (simp add: link_resolves_def i dangling_links_def wire_ends_def)
  from load_reconciliation [of dangling_payload dangling_nodes dangling_links "\<lambda>_. 0" "\<lambda>_. 0" ?s]
    n sf
  have 1: "fst (loadGraph dangling_payload (\<lambda>_. 0) (\<lambda>_. 0) ?s) = None"
    and 2: "map node_id (live (snd (loadGraph dangling_payload (\<lambda>_. 0) (\<lambda>_. 0) ?s))) = [1, 2]"
    and 3: "map (link_ends (snd (loadGraph dangling_payload (\<lambda>_. 0) (\<lambda>_. 0) ?s)))
              (links (snd (loadGraph dangling_payload (\<lambda>_. 0) (\<lambda>_. 0) ?s))) =
            [(Some 1, Some 2, False)]"
    and 4: "nextId (snd (loadGraph dangling_payload (\<lambda>_. 0) (\<lambda>_. 0) ?s)) = 3"
    by (simp_all add: Let_def i f node_id_loaded_nodes)
  from load_reconciliation [of links_only_payload dangling_nodes dangling_links "\<lambda>_. 0" "\<lambda>_. 0"
      ?s 800 600] e
  have 5: "nextId (snd (loadGraph links_only_payload (\<lambda>_. 0) (\<lambda>_. 0) ?s)) = 1"
    by simp
  from 1 2 3 4 5 show ?thesis by simp
qed

lemma bit_length_tie: "bit_length 9007199254740993 = 54"
  by (simp add: bit_length.simps)

lemma js_add_tie: "js_add 9007199254740992 1 = 9007199254740992"
  by (simp add: js_add_def round_double_def Let_def bit_length_tie)

text \<open>
  For a payload whose only node has the id \<open>2 ^ 53\<close> the next id is \<open>2 ^ 53\<close> again, the
  id of that node, and not the greatest id plus one.
\<close>

theorem load_next_id_rounds:
  "map w_id big_id_nodes = [2 ^ 53] \<and>
   map node_id (live (snd (loadGraph big_id_payload (\<lambda>_. 0) (\<lambda>_. 0) (init_state 800 600)))) =
     [2 ^ 53] \<and>
   nextId (snd (loadGraph big_id_payload (\<lambda>_. 0) (\<lambda>_. 0) (init_state 800 600))) = 2 ^ 53 \<and>
   nextId (snd (loadGraph big_id_payload (\<lambda>_. 0) (\<lambda>_. 0) (init_state 800 600))) \<noteq>
     Max (set (map w_id big_id_nodes)) + 1"
proof -
  let ?s = "init_state 800 600"
  have n: "p_nodes big_id_payload = Some big_id_nodes" "big_id_nodes \<noteq> []"
    "p_links big_id_payload = Some []"
    by (simp_all add: big_id_payload_def big_id_nodes_def)
  have i: "map w_id big_id_nodes = [9007199254740992]"
    by (simp add: big_id_nodes_def)
  have l: "live (snd (loadGraph big_id_payload (\<lambda>_. 0) (\<lambda>_. 0) ?s)) =
           loaded_nodes big_id_nodes (\<lambda>_. 0) (\<lambda>_. 0) ?s"
    using live_after_nodes [of big_id_nodes "\<lambda>_. 0" "\<lambda>_. 0" ?s]
    by (simp add: loadGraph_nonempty [OF n] live_def)
  have x: "nextId (snd (loadGraph big_id_payload (\<lambda>_. 0) (\<lambda>_. 0) ?s)) = 9007199254740992"
    by (simp add: loadGraph_nonempty [OF n] ids_after_nodes i js_add_tie)
  show ?thesis
    by (simp add: l x i node_id_loaded_nodes)
qed

text \<open>
  C10. Loading a payload whose node list is missing or empty leaves the whole state as it
  was, whatever the payload's links are.
\<close>

theorem load_without_nodes_changes_nothing:
  "p_nodes data = None \<or> p_nodes data = Some [] \<Longrightarrow> loadGraph data rx ry st = (None, st)"
  by (rule loadGraph_empty)

text \<open>The theorem at payloads with links and no nodes, on a state that holds a graph.\<close>

theorem load_without_nodes_changes_nothing_witness:
  "p_nodes links_only_payload = Some [] \<and> p_links links_only_payload \<noteq> Some [] \<and>
   loadGraph links_only_payload (\<lambda>_. 0) (\<lambda>_. 0) spawn_trace = (None, spawn_trace) \<and>
   loadGraph \<lparr>p_nodes = None, p_links = Some dangling_links\<rparr> (\<lambda>_. 0) (\<lambda>_. 0) spawn_trace =
     (None, spawn_trace)"
  using load_without_nodes_changes_nothing [of links_only_payload "\<lambda>_. 0" "\<lambda>_. 0" spawn_trace]
    load_without_nodes_changes_nothing [of "\<lparr>p_nodes = None, p_links = Some dangling_links\<rparr>"
      "\<lambda>_. 0" "\<lambda>_. 0" spawn_trace]
  by (simp add: links_only_payload_def)

section \<open>Viewport\<close>

lemma zoom_once_transform: "zoomTransform zoom_once = Some \<lparr>t_k = 11 / 10, t_x = - 10, t_y = - 10\<rparr>"
  by (simp add: zoom_once_def handleWheel_def init_state_def current_transform_def zoomIdentity_def
      translate_def scale_def zoomMin_def zoomMax_def Let_def)

text \<open>The scale after a wheel event is the current scale times the clamped scale.\<close>

lemma handleWheel_scale:
  "t_k (current_transform (handleWheel deltaY mouseX mouseY st)) =
     t_k (current_transform st) *
       max zoomMin (min zoomMax (t_k (current_transform st) * (if deltaY > 0 then 9 / 10 else 11 / 10)))"
  by (simp add: handleWheel_def current_transform_def [of "_\<lparr>zoomTransform := _\<rparr>"]
      translate_def scale_def Let_def)

text \<open>
  C6. After one zooming wheel event at (100, 100), a second one at the pointer position
  (0, 0) moves the world point under (0, 0) from 100/11 to 22100/1331; and at scale
  \<open>zoomMax\<close>, where the clamped scale equals the current one, a wheel event turns the scale
  5 into 25 instead of leaving the transform as it is.
\<close>

theorem wheel_zoom_moves_anchor:
  "getSVGCoordinates 0 0 zoom_once = (100 / 11, 100 / 11) \<and>
   getSVGCoordinates 0 0 (handleWheel (- 1) 0 0 zoom_once) = (22100 / 1331, 22100 / 1331) \<and>
   zoomTransform max_zoom = Some \<lparr>t_k = 5, t_x = 0, t_y = 0\<rparr> \<and>
   zoomTransform (handleWheel (- 1) 100 100 max_zoom) = Some \<lparr>t_k = 25, t_x = 0, t_y = 0\<rparr>"
  by (simp add: getSVGCoordinates_def handleWheel_def current_transform_def zoom_once_transform
      max_zoom_def translate_def scale_def zoomMin_def zoomMax_def Let_def)

text \<open>
  C7. Four zooming wheel events from the initial state keep the scale within the extent,
  the fifth takes it above 19; from scale \<open>zoomMax\<close> one wheel event gives 25.
\<close>

theorem wheel_zoom_leaves_scale_extent:
  "t_k (current_transform (wheel_in (wheel_in (wheel_in (wheel_in (init_state 800 600)))))) \<le> zoomMax \<and>
   19 < t_k (current_transform (wheel_in (wheel_in (wheel_in (wheel_in (wheel_in (init_state 800 600))))))) \<and>
   zoomMax < t_k (current_transform (wheel_in (wheel_in (wheel_in (wheel_in (wheel_in (init_state 800 600))))))) \<and>
   t_k (current_transform max_zoom) = zoomMax \<and>
   t_k (current_transform (wheel_in max_zoom)) = 25"
  by (simp add: wheel_in_def handleWheel_def current_transform_def init_state_def zoomIdentity_def
      max_zoom_def translate_def scale_def zoomMin_def zoomMax_def Let_def)

section \<open>Charge strength\<close>

lemma createLink_charge_eq:
  "charge (createLink s t brk st) = chargeStrength * min (real (length (links st) + 1) / 5) 2"
  by (simp add: createLink_def Let_def)

lemma createLink_length: "length (links (createLink s t brk st)) = length (links st) + 1"
  by (simp add: createLink_def Let_def)

lemma createLink_abs_charge:
  "\<bar>charge (createLink s t brk st)\<bar> = 500 * min (real (length (links st) + 1) / 5) 2"
  by (simp add: createLink_charge_eq chargeStrength_def abs_mult)

lemma funpow_createLink_length:
  "length (links ((createLink s t brk ^^ n) st)) = length (links st) + n"
  by (induction n) (simp_all add: createLink_length)

text \<open>
  C8 (amended). After a link creation the charge strength is the base strength times
  \<open>min (n / 5) 2\<close> for the number \<open>n\<close> of links then present. Its magnitude is at most
  twice the base magnitude, equals it exactly when \<open>n\<close> is at least ten, and is \<open>100 * n\<close>
  up to ten links; a creation that leaves more links never sets a smaller magnitude.
\<close>

theorem charge_follows_link_count:
  "charge (createLink s t brk st) = chargeStrength * min (real (length (links st) + 1) / 5) 2 \<and>
   \<bar>charge (createLink s t brk st)\<bar> \<le> 2 * \<bar>chargeStrength\<bar> \<and>
   (\<bar>charge (createLink s t brk st)\<bar> = 2 * \<bar>chargeStrength\<bar> \<longleftrightarrow> 10 \<le> length (links st) + 1) \<and>
   (length (links st) + 1 \<le> 10 \<longrightarrow>
      \<bar>charge (createLink s t brk st)\<bar> = 100 * real (length (links st) + 1)) \<and>
   (length (links st) \<le> length (links st') \<longrightarrow>
      \<bar>charge (createLink s t brk st)\<bar> \<le> \<bar>charge (createLink s' t' brk' st')\<bar>)"
proof -
  have a: "\<bar>charge (createLink s t brk st)\<bar> = 500 * min (real (length (links st) + 1) / 5) 2"
    by (rule createLink_abs_charge)
  have b: "\<bar>charge (createLink s' t' brk' st')\<bar> = 500 * min (real (length (links st') + 1) / 5) 2"
    by (rule createLink_abs_charge)
  have c: "\<bar>chargeStrength\<bar> = 500"
    by (simp add: chargeStrength_def)
  show ?thesis
    unfolding a b c by (auto simp: createLink_charge_eq min_def)
qed

lemma ten_links_length: "length (links ten_links) = 10"
  by (simp add: ten_links_def funpow_createLink_length spawn_trace_links)

lemma ten_links_charge: "charge ten_links = - 1000"
proof -
  have e: "ten_links = createLink 0 1 False ((createLink 0 1 False ^^ 8) spawn_trace)"
    by (simp add: ten_links_def numeral_eq_Suc)
  show ?thesis
    unfolding e createLink_charge_eq
    by (simp add: funpow_createLink_length spawn_trace_links chargeStrength_def)
qed

text \<open>The theorem at a graph with one link and at a graph with ten links.\<close>

theorem charge_follows_link_count_witness:
  "charge (createLink 0 1 False spawn_trace) = - 200 \<and>
   \<bar>charge (createLink 0 1 False ten_links)\<bar> = 1000 \<and>
   \<bar>charge (createLink 0 1 False spawn_trace)\<bar> \<le> \<bar>charge (createLink 0 1 False ten_links)\<bar>"
  using charge_follows_link_count [of 0 1 False spawn_trace ten_links 0 1 False]
    charge_follows_link_count [of 0 1 False ten_links ten_links 0 1 False]
  by (simp add: spawn_trace_links ten_links_length chargeStrength_def)

text \<open>
  The eleventh link leaves the charge strength at - 1000: adding a link does not always
  increase it. The first link of a session takes the strength from the base - 500 of
  \<^verbatim>\<open>initGraph\<close> to - 100, against the comment at line 578.
\<close>

theorem eleventh_link_keeps_charge:
  "length (links ten_links) = 10 \<and> charge ten_links = - 1000 \<and>
   charge (createLink 0 1 False ten_links) = charge ten_links \<and>
   charge (init_state 800 600) = - 500 \<and> charge spawn_trace = - 100"
proof -
  have "charge spawn_trace = - 100"
    by (simp add: spawn_trace_def handleNodeRightClick_def createNode_def createLink_def
        clearConnectionSelection_def init_state_def chargeStrength_def Let_def)
  then show ?thesis
    by (simp add: ten_links_length ten_links_charge createLink_charge_eq chargeStrength_def
        init_state_def)
qed

section \<open>Debounced saving\<close>




lemma simulate_fields [simp]:
  "length (store (simulate pos st)) = length (store st)"
  "nodes (simulate pos st) = nodes st"
  "links (simulate pos st) = links st"
  "selectedNode (simulate pos st) = selectedNode st"
  "editorValue (simulate pos st) = editorValue st"
  "clock (simulate pos st) = clock st"
  "timeout (simulate pos st) = timeout st"
  "posted (simulate pos st) = posted st"
  by (simp_all add: simulate_def)


lemma later_change_handler_unselected:
  "selectedNode st = None \<Longrightarrow> later change_handler st = st\<lparr>timeout := None\<rparr>"
  by (simp add: later_def change_handler_def)







end
